theory Spec2Isabelle
  imports Main "HOL-Library.Sublist"
begin

section \<open>The activity directory of \<open>src/app.py\<close>\<close>

text \<open>
  \<open>app.py\<close> keeps one module-level dictionary, \<open>activities\<close>, from an activity's
  name to a dictionary with the four keys \<open>description\<close>, \<open>schedule\<close>,
  \<open>max_participants\<close> and \<open>participants\<close>. The inner dictionary is a record here, the
  outer one a map from names to records. Every activity of the seed literal owns a list
  literal of its own and no handler stores a reference to a list anywhere else, so the
  participants are held by value.
\<close>

record activity =
  description :: string
  schedule :: string
  max_participants :: int
  participants :: "string list"

type_synonym directory = "string \<rightharpoonup> activity"

text \<open>The seed literal, lines 23 to 78, in the order of the source.\<close>

definition seed :: "(string \<times> activity) list" where
  "seed =
    [(''Chess Club'',
       \<lparr>description = ''Learn strategies and compete in chess tournaments'',
        schedule = ''Fridays, 3:30 PM - 5:00 PM'',
        max_participants = 12,
        participants = [''michael@mergington.edu'', ''daniel@mergington.edu'']\<rparr>),
     (''Programming Class'',
       \<lparr>description = ''Learn programming fundamentals and build software projects'',
        schedule = ''Tuesdays and Thursdays, 3:30 PM - 4:30 PM'',
        max_participants = 20,
        participants = [''emma@mergington.edu'', ''sophia@mergington.edu'']\<rparr>),
     (''Gym Class'',
       \<lparr>description = ''Physical education and sports activities'',
        schedule = ''Mondays, Wednesdays, Fridays, 2:00 PM - 3:00 PM'',
        max_participants = 30,
        participants = [''john@mergington.edu'', ''olivia@mergington.edu'']\<rparr>),
     (''Basketball Team'',
       \<lparr>description = ''Join the competitive basketball team and compete in interscholastic games'',
        schedule = ''Mondays and Wednesdays, 4:00 PM - 5:30 PM'',
        max_participants = 15,
        participants = [''alex@mergington.edu'']\<rparr>),
     (''Swimming Team'',
       \<lparr>description = ''Competitive swimming with training and meets throughout the season'',
        schedule = ''Tuesdays and Thursdays, 4:00 PM - 5:30 PM'',
        max_participants = 20,
        participants = [''marcus@mergington.edu'', ''jasmine@mergington.edu'']\<rparr>),
     (''Drama Club'',
       \<lparr>description = ''Perform in school plays and develop acting and theatrical skills'',
        schedule = ''Thursdays, 3:30 PM - 5:00 PM'',
        max_participants = 25,
        participants = [''lucy@mergington.edu'']\<rparr>),
     (''Art Club'',
       \<lparr>description = ''Explore various art mediums and create collaborative art projects'',
        schedule = ''Wednesdays, 3:30 PM - 5:00 PM'',
        max_participants = 18,
        participants = [''nina@mergington.edu'', ''david@mergington.edu'']\<rparr>),
     (''Debate Club'',
       \<lparr>description = ''Develop public speaking and argumentation skills through competitive debate'',
        schedule = ''Mondays and Fridays, 3:30 PM - 5:00 PM'',
        max_participants = 16,
        participants = [''ryan@mergington.edu'']\<rparr>),
     (''Science Club'',
       \<lparr>description = ''Conduct experiments and explore scientific concepts through hands-on projects'',
        schedule = ''Tuesdays, 4:30 PM - 5:30 PM'',
        max_participants = 20,
        participants = [''priya@mergington.edu'', ''chris@mergington.edu'']\<rparr>)]"

definition activities :: directory where
  "activities = map_of seed"

section \<open>The handlers\<close>

text \<open>
  \<open>raise HTTPException(status_code=..., detail=...)\<close> is the left injection of the
  result; a handler takes the directory and returns its result with the directory it
  leaves behind.
\<close>

datatype error = HTTPException (status_code: int) (detail: string)

datatype response =
    RedirectResponse (url: string)
  | Activities_body directory
  | Message_body (message: string)

type_synonym result = "error + response"

text \<open>Lines 81 to 83: \<open>return RedirectResponse(url="/static/index.html")\<close>.\<close>

definition root :: "directory \<Rightarrow> result \<times> directory" where
  "root d = (Inr (RedirectResponse ''/static/index.html''), d)"

text \<open>Lines 86 to 88: \<open>return activities\<close>.\<close>

definition get_activities :: "directory \<Rightarrow> result \<times> directory" where
  "get_activities d = (Inr (Activities_body d), d)"

text \<open>
  Lines 91 to 107. The two checks come first and in the order of the source, each
  raising before anything is written; the append is the only write.
\<close>

definition signup_for_activity :: "string \<Rightarrow> string \<Rightarrow> directory \<Rightarrow> result \<times> directory" where
  "signup_for_activity activity_name email d =
    (case d activity_name of
       None \<Rightarrow> (Inl (HTTPException 404 ''Activity not found''), d)
     | Some act \<Rightarrow>
         if email \<in> set (participants act)
         then (Inl (HTTPException 400 ''Already signed up for this activity''), d)
         else (Inr (Message_body (''Signed up '' @ email @ '' for '' @ activity_name)),
               d(activity_name \<mapsto> act\<lparr>participants := participants act @ [email]\<rparr>)))"

section \<open>The routes\<close>

text \<open>
  The whole HTTP surface of \<open>app.py\<close> is three decorated handlers, \<open>@app.get("/")\<close>,
  \<open>@app.get("/activities")\<close> and \<open>@app.post("/activities/{activity_name}/signup")\<close>, and
  the static file mount under \<open>/static\<close>. A request is its method, the segments of its
  path and its \<open>email\<close> query parameter. \<open>route\<close> gives the handler call that the
  decorators select, and \<open>None\<close> for a request that reaches no handler of \<open>app.py\<close>; the
  framework or the static mount answers such a request itself, and neither of them can
  reach \<open>activities\<close>. The segments of a path are what lies between its slashes, a
  path parameter matches one segment that is not empty, and \<open>email: str\<close> is a
  required parameter. No decorator names the method \<open>DELETE\<close>.
\<close>

datatype http_method = GET | HEAD | POST | PUT | PATCH | DELETE | OPTIONS

record request =
  http_method :: http_method
  path :: "string list"
  email_param :: "string option"

datatype handler_call = Root | Get_activities | Signup_for_activity string string

fun route :: "http_method \<Rightarrow> string list \<Rightarrow> string option \<Rightarrow> handler_call option" where
  "route GET [] q = Some Root"
| "route GET [a] q = (if a = ''activities'' then Some Get_activities else None)"
| "route POST [a, activity_name, s] (Some email) =
     (if a = ''activities'' \<and> activity_name \<noteq> [] \<and> s = ''signup''
      then Some (Signup_for_activity activity_name email) else None)"
| "route m p q = None"

fun call :: "handler_call \<Rightarrow> directory \<Rightarrow> result \<times> directory" where
  "call Root d = root d"
| "call Get_activities d = get_activities d"
| "call (Signup_for_activity activity_name email) d = signup_for_activity activity_name email d"

text \<open>
  One request against the directory: the result of the handler, or \<open>None\<close> when no
  handler ran, with the directory afterwards.
\<close>

definition handle :: "request \<Rightarrow> directory \<Rightarrow> result option \<times> directory" where
  "handle req d =
    (case route (http_method req) (path req) (email_param req) of
       None \<Rightarrow> (None, d)
     | Some h \<Rightarrow> (let (r, d') = call h d in (Some r, d')))"

text \<open>A sequence of requests, served one after the other: the results and the last directory.\<close>

fun serve :: "request list \<Rightarrow> directory \<Rightarrow> result option list \<times> directory" where
  "serve [] d = ([], d)"
| "serve (req # reqs) d =
     (let (r, d') = handle req d; (rs, d'') = serve reqs d' in (r # rs, d''))"

text \<open>
  \<open>succeeded\<close> holds of a request when a handler of \<open>app.py\<close> ran and returned; it
  does not when the handler raised or when the request was answered without any handler.
\<close>

fun succeeded :: "result option \<Rightarrow> bool" where
  "succeeded (Some (Inr r)) = True"
| "succeeded (Some (Inl err)) = False"
| "succeeded None = False"

text \<open>The requests used below: a sign-up, the request to unregister that the tests send, and the listing.\<close>

definition signup_request :: "string \<Rightarrow> string \<Rightarrow> request" where
  "signup_request activity_name email =
    \<lparr>http_method = POST, path = [''activities'', activity_name, ''signup''],
     email_param = Some email\<rparr>"

definition unregister_request :: "string \<Rightarrow> string \<Rightarrow> request" where
  "unregister_request activity_name email =
    \<lparr>http_method = DELETE, path = [''activities'', activity_name, ''unregister''],
     email_param = Some email\<rparr>"

definition list_request :: request where
  "list_request = \<lparr>http_method = GET, path = [''activities''], email_param = None\<rparr>"

section \<open>The invariant of the directory\<close>

text \<open>No activity lists an email twice.\<close>

definition no_duplicates :: "directory \<Rightarrow> bool" where
  "no_duplicates d = (\<forall>A act. d A = Some act \<longrightarrow> distinct (participants act))"

section \<open>Facts about the handlers\<close>

text \<open>The three branches of \<open>signup_for_activity\<close>, one lemma each, and as a case rule.\<close>

lemma signup_absent:
  "d A = None \<Longrightarrow>
   signup_for_activity A e d = (Inl (HTTPException 404 ''Activity not found''), d)"
  by (simp add: signup_for_activity_def)

lemma signup_duplicate:
  "d A = Some act \<Longrightarrow> e \<in> set (participants act) \<Longrightarrow>
   signup_for_activity A e d =
     (Inl (HTTPException 400 ''Already signed up for this activity''), d)"
  by (simp add: signup_for_activity_def)

lemma signup_fresh:
  "d A = Some act \<Longrightarrow> e \<notin> set (participants act) \<Longrightarrow>
   signup_for_activity A e d =
     (Inr (Message_body (''Signed up '' @ e @ '' for '' @ A)),
      d(A \<mapsto> act\<lparr>participants := participants act @ [e]\<rparr>))"
  by (simp add: signup_for_activity_def)

lemma signup_cases:
  obtains (absent) "d A = None"
      "signup_for_activity A e d = (Inl (HTTPException 404 ''Activity not found''), d)"
  | (duplicate) act where "d A = Some act" "e \<in> set (participants act)"
      "signup_for_activity A e d =
         (Inl (HTTPException 400 ''Already signed up for this activity''), d)"
  | (fresh) act where "d A = Some act" "e \<notin> set (participants act)"
      "signup_for_activity A e d =
         (Inr (Message_body (''Signed up '' @ e @ '' for '' @ A)),
          d(A \<mapsto> act\<lparr>participants := participants act @ [e]\<rparr>))"
proof (cases "d A")
  case None
  then show ?thesis using absent signup_absent by blast
next
  case (Some act)
  then show ?thesis
    using duplicate signup_duplicate fresh signup_fresh by (cases "e \<in> set (participants act)") blast+
qed

text \<open>The two seed entries that the scenarios use.\<close>

lemma chess_club_seed:
  "activities ''Chess Club'' = Some
     \<lparr>description = ''Learn strategies and compete in chess tournaments'',
      schedule = ''Fridays, 3:30 PM - 5:00 PM'',
      max_participants = 12,
      participants = [''michael@mergington.edu'', ''daniel@mergington.edu'']\<rparr>"
  by (simp add: activities_def seed_def)

lemma programming_class_seed:
  "activities ''Programming Class'' = Some
     \<lparr>description = ''Learn programming fundamentals and build software projects'',
      schedule = ''Tuesdays and Thursdays, 3:30 PM - 4:30 PM'',
      max_participants = 20,
      participants = [''emma@mergington.edu'', ''sophia@mergington.edu'']\<rparr>"
  by (simp add: activities_def seed_def)

text \<open>What \<open>handle\<close> does with a request, by the route that it takes.\<close>

lemma handle_routed:
  "route (http_method req) (path req) (email_param req) = Some h \<Longrightarrow>
   handle req d = (Some (fst (call h d)), snd (call h d))"
  by (simp add: handle_def split_beta)

lemma handle_unrouted:
  "route (http_method req) (path req) (email_param req) = None \<Longrightarrow> handle req d = (None, d)"
  by (simp add: handle_def)

lemma handle_signup_request:
  "A \<noteq> [] \<Longrightarrow> handle (signup_request A e) d =
     (Some (fst (signup_for_activity A e d)), snd (signup_for_activity A e d))"
  by (simp add: handle_def signup_request_def split_beta)

lemma unregister_unrouted:
  "handle (unregister_request A e) d = (None, d)"
  by (simp add: handle_def unregister_request_def)

lemma serve_two:
  "serve [r1, r2] d =
    ([fst (handle r1 d), fst (handle r2 (snd (handle r1 d)))],
     snd (handle r2 (snd (handle r1 d))))"
  by (simp add: split_beta)

section \<open>Sign-up\<close>

text \<open>
  C2. For every directory, activity name and email, \<open>signup_for_activity\<close> raises
  \<open>HTTPException(404, "Activity not found")\<close> exactly when the name is not a key of the
  directory, raises \<open>HTTPException(400, "Already signed up for this activity")\<close> exactly
  when the name is a key and the email is already among that activity's participants,
  and returns a response exactly in the remaining case.
\<close>

theorem signup_outcome:
  "(fst (signup_for_activity A e d) = Inl (HTTPException 404 ''Activity not found''))
     = (d A = None)
   \<and> (fst (signup_for_activity A e d)
        = Inl (HTTPException 400 ''Already signed up for this activity''))
     = (\<exists>act. d A = Some act \<and> e \<in> set (participants act))
   \<and> (\<exists>r. fst (signup_for_activity A e d) = Inr r)
     = (\<exists>act. d A = Some act \<and> e \<notin> set (participants act))"
proof (cases "d A")
  case None
  then show ?thesis by (simp add: signup_absent)
next
  case (Some act)
  then show ?thesis
    by (cases "e \<in> set (participants act)") (simp_all add: signup_duplicate signup_fresh)
qed

theorem signup_outcome_witness:
  "fst (signup_for_activity ''Nonexistent Club'' ''x@y.edu'' activities)
     = Inl (HTTPException 404 ''Activity not found'')
   \<and> fst (signup_for_activity ''Chess Club'' ''michael@mergington.edu'' activities)
     = Inl (HTTPException 400 ''Already signed up for this activity'')
   \<and> (\<exists>r. fst (signup_for_activity ''Chess Club'' ''x@y.edu'' activities) = Inr r)"
proof -
  have absent: "activities ''Nonexistent Club'' = None"
    by (simp add: activities_def seed_def)
  have chess: "activities ''Chess Club'' = Some
     \<lparr>description = ''Learn strategies and compete in chess tournaments'',
      schedule = ''Fridays, 3:30 PM - 5:00 PM'',
      max_participants = 12,
      participants = [''michael@mergington.edu'', ''daniel@mergington.edu'']\<rparr>"
    by (simp add: activities_def seed_def)
  show ?thesis
    using signup_outcome [of "''Nonexistent Club''" "''x@y.edu''" activities]
      signup_outcome [of "''Chess Club''" "''michael@mergington.edu''" activities]
      signup_outcome [of "''Chess Club''" "''x@y.edu''" activities]
      absent chess
    by simp
qed

text \<open>
  C3. When the activity exists and the email is not among its participants, the sign-up
  returns the message \<open>Signed up {email} for {activity_name}\<close>, which embeds both, and
  leaves the directory with the email appended after the participants that were there,
  in their order. Nothing in the hypotheses bounds the number of participants by
  \<open>max_participants\<close>: the witness signs a third student up for an activity of capacity 1.
\<close>

theorem signup_appends:
  assumes "d A = Some act" and "e \<notin> set (participants act)"
  shows "signup_for_activity A e d =
           (Inr (Message_body (''Signed up '' @ e @ '' for '' @ A)),
            d(A \<mapsto> act\<lparr>participants := participants act @ [e]\<rparr>))
         \<and> sublist e (message (projr (fst (signup_for_activity A e d))))
         \<and> sublist A (message (projr (fst (signup_for_activity A e d))))"
proof -
  have "sublist e (''Signed up '' @ e @ '' for '' @ A)"
    by (rule sublist_appendI)
  moreover have "sublist A ((''Signed up '' @ e @ '' for '') @ A @ [])"
    by (rule sublist_appendI)
  ultimately show ?thesis
    using assms by (simp add: signup_fresh)
qed

theorem signup_appends_witness:
  "int (length (participants \<lparr>description = ''d'', schedule = ''s'', max_participants = 1,
        participants = [''a@x.edu'', ''b@x.edu'']\<rparr>)) \<ge> 1
   \<and> signup_for_activity ''Full'' ''c@x.edu''
       [''Full'' \<mapsto> \<lparr>description = ''d'', schedule = ''s'', max_participants = 1,
          participants = [''a@x.edu'', ''b@x.edu'']\<rparr>]
     = (Inr (Message_body ''Signed up c@x.edu for Full''),
        [''Full'' \<mapsto> \<lparr>description = ''d'', schedule = ''s'', max_participants = 1,
          participants = [''a@x.edu'', ''b@x.edu'', ''c@x.edu'']\<rparr>])"
  using signup_appends [of "[''Full'' \<mapsto> \<lparr>description = ''d'', schedule = ''s'',
      max_participants = 1, participants = [''a@x.edu'', ''b@x.edu'']\<rparr>]" "''Full''"
      "\<lparr>description = ''d'', schedule = ''s'', max_participants = 1,
        participants = [''a@x.edu'', ''b@x.edu'']\<rparr>" "''c@x.edu''"]
  by simp

text \<open>
  C8. The outcome of a sign-up for \<open>A\<close> is the same in any two directories that agree
  on whether \<open>A\<close> exists and on the participants of \<open>A\<close>, whatever else they hold
  (the other fields of \<open>A\<close>, the other activities); every other activity is left as it
  was; and a student who is a participant of another activity \<open>B\<close> is signed up for \<open>A\<close>
  all the same and is then a participant of both.
\<close>

theorem signup_ignores_other_activities:
  "(map_option participants (d A) = map_option participants (d' A) \<longrightarrow>
      fst (signup_for_activity A e d) = fst (signup_for_activity A e d'))
   \<and> (A \<noteq> B \<longrightarrow> snd (signup_for_activity A e d) B = d B)
   \<and> (d A = Some a \<and> e \<notin> set (participants a) \<and> d B = Some b \<and> e \<in> set (participants b) \<longrightarrow>
        (\<exists>r a'. fst (signup_for_activity A e d) = Inr r
           \<and> snd (signup_for_activity A e d) A = Some a' \<and> e \<in> set (participants a')
           \<and> snd (signup_for_activity A e d) B = Some b))"
proof (intro conjI impI)
  assume same: "map_option participants (d A) = map_option participants (d' A)"
  show "fst (signup_for_activity A e d) = fst (signup_for_activity A e d')"
  proof (cases "d A")
    case None
    with same have "d' A = None" by simp
    with None show ?thesis by (simp add: signup_absent)
  next
    case (Some act)
    with same obtain act' where other: "d' A = Some act'"
      and "participants act' = participants act"
      by (cases "d' A") auto
    with Some show ?thesis
      by (cases "e \<in> set (participants act)") (simp_all add: signup_duplicate signup_fresh)
  qed
next
  assume "A \<noteq> B"
  then show "snd (signup_for_activity A e d) B = d B"
    by (cases rule: signup_cases [of d A e]) simp_all
next
  assume h: "d A = Some a \<and> e \<notin> set (participants a) \<and> d B = Some b \<and> e \<in> set (participants b)"
  then have "A \<noteq> B" by auto
  with h show "\<exists>r a'. fst (signup_for_activity A e d) = Inr r
           \<and> snd (signup_for_activity A e d) A = Some a' \<and> e \<in> set (participants a')
           \<and> snd (signup_for_activity A e d) B = Some b"
    by (simp add: signup_fresh)
qed

theorem signup_ignores_other_activities_witness:
  "fst (signup_for_activity ''Chess Club'' ''emma@mergington.edu'' activities)
     = fst (signup_for_activity ''Chess Club'' ''emma@mergington.edu''
         [''Chess Club'' \<mapsto> \<lparr>description = ''other'', schedule = ''never'', max_participants = 0,
            participants = [''michael@mergington.edu'', ''daniel@mergington.edu'']\<rparr>,
          ''Art Club'' \<mapsto> \<lparr>description = ''art'', schedule = ''always'', max_participants = 1,
            participants = [''emma@mergington.edu'']\<rparr>])
   \<and> (\<exists>b. activities ''Programming Class'' = Some b \<and> ''emma@mergington.edu'' \<in> set (participants b))
   \<and> (\<exists>r a' b. fst (signup_for_activity ''Chess Club'' ''emma@mergington.edu'' activities) = Inr r
        \<and> snd (signup_for_activity ''Chess Club'' ''emma@mergington.edu'' activities) ''Chess Club''
            = Some a'
        \<and> ''emma@mergington.edu'' \<in> set (participants a')
        \<and> snd (signup_for_activity ''Chess Club'' ''emma@mergington.edu'' activities)
            ''Programming Class'' = Some b
        \<and> ''emma@mergington.edu'' \<in> set (participants b))"
proof -
  let ?a = "\<lparr>description = ''Learn strategies and compete in chess tournaments'',
        schedule = ''Fridays, 3:30 PM - 5:00 PM'',
        max_participants = 12,
        participants = [''michael@mergington.edu'', ''daniel@mergington.edu'']\<rparr>"
  let ?b = "\<lparr>description = ''Learn programming fundamentals and build software projects'',
        schedule = ''Tuesdays and Thursdays, 3:30 PM - 4:30 PM'',
        max_participants = 20,
        participants = [''emma@mergington.edu'', ''sophia@mergington.edu'']\<rparr>"
  let ?d' = "[''Chess Club'' \<mapsto> \<lparr>description = ''other'', schedule = ''never'',
            max_participants = 0,
            participants = [''michael@mergington.edu'', ''daniel@mergington.edu'']\<rparr>,
          ''Art Club'' \<mapsto> \<lparr>description = ''art'', schedule = ''always'', max_participants = 1,
            participants = [''emma@mergington.edu'']\<rparr>]"
  have "map_option participants (activities ''Chess Club'')
      = map_option participants (?d' ''Chess Club'')"
    using chess_club_seed by simp
  with signup_ignores_other_activities [of activities "''Chess Club''" ?d'
      "''emma@mergington.edu''" "''Programming Class''" ?a ?b]
  have same: "fst (signup_for_activity ''Chess Club'' ''emma@mergington.edu'' activities)
      = fst (signup_for_activity ''Chess Club'' ''emma@mergington.edu'' ?d')"
    by blast
  have there: "''emma@mergington.edu'' \<in> set (participants ?b)" by simp
  have "activities ''Chess Club'' = Some ?a \<and> ''emma@mergington.edu'' \<notin> set (participants ?a)
      \<and> activities ''Programming Class'' = Some ?b \<and> ''emma@mergington.edu'' \<in> set (participants ?b)"
    using chess_club_seed programming_class_seed by simp
  with signup_ignores_other_activities [of activities "''Chess Club''" activities
      "''emma@mergington.edu''" "''Programming Class''" ?a ?b]
  have "\<exists>r a'. fst (signup_for_activity ''Chess Club'' ''emma@mergington.edu'' activities) = Inr r
        \<and> snd (signup_for_activity ''Chess Club'' ''emma@mergington.edu'' activities) ''Chess Club''
            = Some a'
        \<and> ''emma@mergington.edu'' \<in> set (participants a')
        \<and> snd (signup_for_activity ''Chess Club'' ''emma@mergington.edu'' activities)
            ''Programming Class'' = Some ?b"
    by blast
  with there programming_class_seed have "(\<exists>b. activities ''Programming Class'' = Some b
        \<and> ''emma@mergington.edu'' \<in> set (participants b))
   \<and> (\<exists>r a' b. fst (signup_for_activity ''Chess Club'' ''emma@mergington.edu'' activities) = Inr r
        \<and> snd (signup_for_activity ''Chess Club'' ''emma@mergington.edu'' activities) ''Chess Club''
            = Some a'
        \<and> ''emma@mergington.edu'' \<in> set (participants a')
        \<and> snd (signup_for_activity ''Chess Club'' ''emma@mergington.edu'' activities)
            ''Programming Class'' = Some b
        \<and> ''emma@mergington.edu'' \<in> set (participants b))"
    by blast
  with same show ?thesis by (rule conjI)
qed

text \<open>
  C9. In the seeded directory Chess Club has exactly the participants
  \<open>michael@mergington.edu\<close> and \<open>daniel@mergington.edu\<close>; signing \<open>test@x.edu\<close> up for it
  returns a message that contains \<open>Signed up\<close>, and Chess Club then has three participants.
\<close>

theorem chess_club_scenario:
  "(\<exists>act. activities ''Chess Club'' = Some act
      \<and> participants act = [''michael@mergington.edu'', ''daniel@mergington.edu''])
   \<and> fst (signup_for_activity ''Chess Club'' ''test@x.edu'' activities)
       = Inr (Message_body ''Signed up test@x.edu for Chess Club'')
   \<and> sublist ''Signed up''
       (message (projr (fst (signup_for_activity ''Chess Club'' ''test@x.edu'' activities))))
   \<and> (\<exists>act. snd (signup_for_activity ''Chess Club'' ''test@x.edu'' activities) ''Chess Club''
         = Some act
      \<and> length (participants act) = 3)"
proof -
  have "prefix ''Signed up'' ''Signed up test@x.edu for Chess Club''" by simp
  then have "sublist ''Signed up'' ''Signed up test@x.edu for Chess Club''"
    by (rule prefix_imp_sublist)
  then show ?thesis
    using chess_club_seed by (simp add: signup_for_activity_def)
qed

section \<open>Listing\<close>

text \<open>
  C5. \<open>get_activities\<close> leaves the directory as it was and returns a mapping with the
  same keys in which every activity of the directory has exactly its stored description,
  schedule, capacity and participants.
\<close>

theorem get_activities_whole_directory:
  "snd (get_activities d) = d
   \<and> (\<exists>body. fst (get_activities d) = Inr (Activities_body body)
        \<and> dom body = dom d
        \<and> (\<forall>A act. d A = Some act \<longrightarrow>
              (\<exists>act'. body A = Some act'
                 \<and> description act' = description act
                 \<and> schedule act' = schedule act
                 \<and> max_participants act' = max_participants act
                 \<and> participants act' = participants act)))"
  by (simp add: get_activities_def)

theorem get_activities_whole_directory_witness:
  "snd (get_activities activities) = activities
   \<and> (\<exists>body act'. fst (get_activities activities) = Inr (Activities_body body)
        \<and> body ''Chess Club'' = Some act'
        \<and> description act' = ''Learn strategies and compete in chess tournaments''
        \<and> schedule act' = ''Fridays, 3:30 PM - 5:00 PM''
        \<and> max_participants act' = 12
        \<and> participants act' = [''michael@mergington.edu'', ''daniel@mergington.edu''])"
proof -
  from get_activities_whole_directory [of activities]
  obtain body where unchanged: "snd (get_activities activities) = activities"
    and body: "fst (get_activities activities) = Inr (Activities_body body)"
    and fields: "\<forall>A act. activities A = Some act \<longrightarrow>
              (\<exists>act'. body A = Some act'
                 \<and> description act' = description act
                 \<and> schedule act' = schedule act
                 \<and> max_participants act' = max_participants act
                 \<and> participants act' = participants act)"
    by blast
  from fields chess_club_seed
  obtain act' where "body ''Chess Club'' = Some act'"
    and "description act' = ''Learn strategies and compete in chess tournaments''"
    and "schedule act' = ''Fridays, 3:30 PM - 5:00 PM''"
    and "max_participants act' = 12"
    and "participants act' = [''michael@mergington.edu'', ''daniel@mergington.edu'']"
    by fastforce
  with unchanged body show ?thesis by blast
qed

section \<open>Failure writes nothing\<close>

lemma call_failure_unchanged:
  "fst (call h d) = Inl err \<Longrightarrow> snd (call h d) = d"
proof (cases h)
  case (Signup_for_activity A e)
  assume "fst (call h d) = Inl err"
  with Signup_for_activity show ?thesis
    by (cases rule: signup_cases [of d A e]) simp_all
qed (simp_all add: root_def get_activities_def)

lemma handle_failure_unchanged:
  assumes "\<not> succeeded (fst (handle req d))"
  shows "snd (handle req d) = d"
proof (cases "route (http_method req) (path req) (email_param req)")
  case None
  then show ?thesis by (simp add: handle_unrouted)
next
  case (Some h)
  with assms have "\<not> succeeded (Some (fst (call h d)))"
    by (simp add: handle_routed)
  then obtain err where "fst (call h d) = Inl err"
    by (cases "fst (call h d)") simp_all
  then have "snd (call h d) = d" by (rule call_failure_unchanged)
  with Some show ?thesis by (simp add: handle_routed)
qed

text \<open>
  C6. A sign-up that raises leaves the directory exactly as it was; more generally every
  request that does not succeed does, whichever handler it reached or none. A request
  to unregister is such a request: \<open>app.py\<close> has no handler for it, so it never succeeds
  and never writes.
\<close>

theorem failure_leaves_directory_unchanged:
  "(\<forall>err. fst (signup_for_activity A e d) = Inl err \<longrightarrow> snd (signup_for_activity A e d) = d)
   \<and> (\<not> succeeded (fst (handle req d)) \<longrightarrow> snd (handle req d) = d)
   \<and> \<not> succeeded (fst (handle (unregister_request A e) d))
   \<and> snd (handle (unregister_request A e) d) = d"
proof -
  have "fst (signup_for_activity A e d) = Inl err \<Longrightarrow> snd (signup_for_activity A e d) = d"
    for err
    using call_failure_unchanged [of "Signup_for_activity A e" d err] by simp
  then show ?thesis
    by (simp add: handle_failure_unchanged unregister_unrouted)
qed

theorem failure_leaves_directory_unchanged_witness:
  "fst (signup_for_activity ''Chess Club'' ''michael@mergington.edu'' activities)
     = Inl (HTTPException 400 ''Already signed up for this activity'')
   \<and> snd (signup_for_activity ''Chess Club'' ''michael@mergington.edu'' activities) = activities
   \<and> \<not> succeeded (fst (handle (signup_request ''Nonexistent Club'' ''x@y.edu'') activities))
   \<and> snd (handle (signup_request ''Nonexistent Club'' ''x@y.edu'') activities) = activities
   \<and> snd (handle (unregister_request ''Chess Club'' ''michael@mergington.edu'') activities)
     = activities"
proof -
  have dup: "fst (signup_for_activity ''Chess Club'' ''michael@mergington.edu'' activities)
      = Inl (HTTPException 400 ''Already signed up for this activity'')"
    using chess_club_seed by (simp add: signup_duplicate)
  have "activities ''Nonexistent Club'' = None"
    by (simp add: activities_def seed_def)
  then have absent:
    "\<not> succeeded (fst (handle (signup_request ''Nonexistent Club'' ''x@y.edu'') activities))"
    by (simp add: handle_signup_request signup_absent)
  show ?thesis
    using failure_leaves_directory_unchanged [of "''Chess Club''" "''michael@mergington.edu''"
        activities "signup_request ''Nonexistent Club'' ''x@y.edu''"] dup absent
    by simp
qed

section \<open>No duplicate participants\<close>

lemma seed_no_duplicates: "no_duplicates activities"
  unfolding no_duplicates_def
proof (intro allI impI)
  fix A act
  assume "activities A = Some act"
  then have "(A, act) \<in> set seed"
    unfolding activities_def by (rule map_of_SomeD)
  then show "distinct (participants act)"
    unfolding seed_def by auto
qed

lemma signup_no_duplicates:
  assumes "no_duplicates d"
  shows "no_duplicates (snd (signup_for_activity A e d))"
proof (cases rule: signup_cases [of d A e])
  case absent
  with assms show ?thesis by simp
next
  case (duplicate act)
  with assms show ?thesis by simp
next
  case (fresh act)
  from assms fresh(1) have "distinct (participants act)"
    by (simp add: no_duplicates_def)
  with fresh(2) have "distinct (participants act @ [e])" by simp
  with assms fresh(3) show ?thesis
    by (simp add: no_duplicates_def)
qed

lemma call_no_duplicates:
  "no_duplicates d \<Longrightarrow> no_duplicates (snd (call h d))"
  by (cases h) (simp_all add: root_def get_activities_def signup_no_duplicates)

lemma handle_no_duplicates:
  "no_duplicates d \<Longrightarrow> no_duplicates (snd (handle req d))"
  by (cases "route (http_method req) (path req) (email_param req)")
     (simp_all add: handle_unrouted handle_routed call_no_duplicates)

lemma serve_no_duplicates:
  "no_duplicates d \<Longrightarrow> no_duplicates (snd (serve reqs d))"
proof (induction reqs arbitrary: d)
  case Nil
  then show ?case by simp
next
  case (Cons req reqs)
  from Cons.prems have "no_duplicates (snd (handle req d))"
    by (rule handle_no_duplicates)
  then have "no_duplicates (snd (serve reqs (snd (handle req d))))"
    by (rule Cons.IH)
  then show ?case by (simp add: split_beta)
qed

text \<open>
  C7. No activity of the seeded directory lists an email twice, and after any sequence of
  requests served from the seeded directory (sign-ups, requests to unregister and any
  others) no activity does.
\<close>

theorem participants_never_duplicated:
  "(\<forall>A act. activities A = Some act \<longrightarrow> distinct (participants act))
   \<and> (\<forall>A act. snd (serve reqs activities) A = Some act \<longrightarrow> distinct (participants act))"
  using seed_no_duplicates serve_no_duplicates [OF seed_no_duplicates, of reqs]
  by (simp add: no_duplicates_def)

theorem participants_never_duplicated_witness:
  "snd (serve [signup_request ''Chess Club'' ''test@x.edu'',
               signup_request ''Chess Club'' ''test@x.edu''] activities) ''Chess Club''
     = Some \<lparr>description = ''Learn strategies and compete in chess tournaments'',
        schedule = ''Fridays, 3:30 PM - 5:00 PM'',
        max_participants = 12,
        participants = [''michael@mergington.edu'', ''daniel@mergington.edu'', ''test@x.edu'']\<rparr>
   \<and> distinct [''michael@mergington.edu'', ''daniel@mergington.edu'', ''test@x.edu'']"
proof -
  let ?reqs = "[signup_request ''Chess Club'' ''test@x.edu'',
                signup_request ''Chess Club'' ''test@x.edu'']"
  let ?act = "\<lparr>description = ''Learn strategies and compete in chess tournaments'',
        schedule = ''Fridays, 3:30 PM - 5:00 PM'',
        max_participants = 12,
        participants = [''michael@mergington.edu'', ''daniel@mergington.edu'', ''test@x.edu'']\<rparr>"
  have after: "snd (serve ?reqs activities) ''Chess Club'' = Some ?act"
    using chess_club_seed
    by (simp add: serve_two handle_signup_request signup_for_activity_def)
  from participants_never_duplicated [of ?reqs] after
  have "distinct (participants ?act)" by blast
  with after show ?thesis by simp
qed

section \<open>Participants are never removed\<close>

text \<open>
  Every handler leaves each activity's participants as they were or longer by one at the
  end, so the old list is a prefix of the new one.
\<close>

lemma signup_grows:
  assumes "d B = Some act"
  shows "\<exists>act'. snd (signup_for_activity A e d) B = Some act'
           \<and> prefix (participants act) (participants act')"
proof (cases rule: signup_cases [of d A e])
  case (fresh a)
  with assms show ?thesis by (cases "A = B") simp_all
qed (use assms in simp_all)

lemma call_grows:
  "d B = Some act \<Longrightarrow>
   \<exists>act'. snd (call h d) B = Some act' \<and> prefix (participants act) (participants act')"
  by (cases h) (simp_all add: root_def get_activities_def signup_grows)

lemma handle_grows:
  "d B = Some act \<Longrightarrow>
   \<exists>act'. snd (handle req d) B = Some act' \<and> prefix (participants act) (participants act')"
  by (cases "route (http_method req) (path req) (email_param req)")
     (simp_all add: handle_unrouted handle_routed call_grows)

lemma serve_grows:
  "d B = Some act \<Longrightarrow>
   \<exists>act'. snd (serve reqs d) B = Some act' \<and> prefix (participants act) (participants act')"
proof (induction reqs arbitrary: d act)
  case Nil
  then show ?case by simp
next
  case (Cons req reqs)
  from Cons.prems
  have "\<exists>mid. snd (handle req d) B = Some mid \<and> prefix (participants act) (participants mid)"
    by (rule handle_grows)
  then obtain mid where mid: "snd (handle req d) B = Some mid"
    and first: "prefix (participants act) (participants mid)"
    by blast
  from mid
  have "\<exists>act'. snd (serve reqs (snd (handle req d))) B = Some act'
          \<and> prefix (participants mid) (participants act')"
    by (rule Cons.IH)
  then obtain act' where last: "snd (serve reqs (snd (handle req d))) B = Some act'"
    and rest: "prefix (participants mid) (participants act')"
    by blast
  from first rest have "prefix (participants act) (participants act')"
    by (rule prefix_order.trans)
  with last show ?case by (simp add: split_beta)
qed

text \<open>
  C10. The handlers that requests can reach are \<open>root\<close>, \<open>get_activities\<close> and
  \<open>signup_for_activity\<close>; none removes anything. Across every sequence of requests an
  activity that is in the directory stays in it, every email among its participants stays
  among them, and the number of its participants does not go down.
\<close>

theorem participants_never_removed:
  assumes "d A = Some act"
  shows "\<exists>act'. snd (serve reqs d) A = Some act'
           \<and> set (participants act) \<subseteq> set (participants act')
           \<and> length (participants act) \<le> length (participants act')"
proof -
  from assms
  have "\<exists>act'. snd (serve reqs d) A = Some act' \<and> prefix (participants act) (participants act')"
    by (rule serve_grows)
  then obtain act' where "snd (serve reqs d) A = Some act'"
    and "prefix (participants act) (participants act')"
    by blast
  then show ?thesis
    by (auto dest: set_mono_prefix prefix_length_le)
qed

theorem participants_never_removed_witness:
  "\<exists>act'. snd (serve [unregister_request ''Chess Club'' ''michael@mergington.edu'',
                      signup_request ''Chess Club'' ''test@x.edu'',
                      list_request] activities) ''Chess Club'' = Some act'
      \<and> ''michael@mergington.edu'' \<in> set (participants act')
      \<and> 2 \<le> length (participants act')"
proof -
  let ?reqs = "[unregister_request ''Chess Club'' ''michael@mergington.edu'',
                signup_request ''Chess Club'' ''test@x.edu'', list_request]"
  let ?act = "\<lparr>description = ''Learn strategies and compete in chess tournaments'',
        schedule = ''Fridays, 3:30 PM - 5:00 PM'',
        max_participants = 12,
        participants = [''michael@mergington.edu'', ''daniel@mergington.edu'']\<rparr>"
  from participants_never_removed [of activities "''Chess Club''" ?act ?reqs] chess_club_seed
  obtain act' where "snd (serve ?reqs activities) ''Chess Club'' = Some act'"
    and "set (participants ?act) \<subseteq> set (participants act')"
    and "length (participants ?act) \<le> length (participants act')"
    by blast
  then show ?thesis by auto
qed

section \<open>Unregistering\<close>

text \<open>
  C1. \<open>tests/test_app.py\<close> (lines 116 to 165) and the specification expect a handler for
  \<open>DELETE /activities/{activity_name}/unregister\<close>. \<open>app.py\<close> declares none. In the
  seeded directory the request to unregister \<open>michael@mergington.edu\<close> from Chess Club
  reaches no handler, and the email is still among the participants afterwards.
\<close>

theorem unregister_reaches_no_handler:
  "fst (handle (unregister_request ''Chess Club'' ''michael@mergington.edu'') activities) = None
   \<and> (\<exists>act. snd (handle (unregister_request ''Chess Club'' ''michael@mergington.edu'') activities)
              ''Chess Club'' = Some act
        \<and> ''michael@mergington.edu'' \<in> set (participants act))"
  using chess_club_seed by (simp add: unregister_unrouted)

text \<open>
  C4. The round trip of \<open>test_signup_after_unregister\<close>: in the seeded directory, where
  \<open>michael@mergington.edu\<close> is signed up for Chess Club, the request to unregister is
  followed by a sign-up. The first reaches no handler, and the second raises the
  duplicate error instead of succeeding.
\<close>

theorem signup_after_unregister_refused:
  "fst (serve [unregister_request ''Chess Club'' ''michael@mergington.edu'',
               signup_request ''Chess Club'' ''michael@mergington.edu''] activities)
   = [None, Some (Inl (HTTPException 400 ''Already signed up for this activity''))]"
  using chess_club_seed
  by (simp add: serve_two unregister_unrouted handle_signup_request signup_duplicate)

end
